theory Spec2Isabelle
  imports Main
begin

section \<open>The credential store\<close>

text \<open>
  The tables of the schema that the authentication core reads and writes. A table with
  an integer primary key is a map from the key to the remaining columns; the junction
  tables and the session table, which the code scans by other columns, are lists of
  rows. Only the columns that the modelled statements read or write are kept.
\<close>

datatype user_status = Active | Inactive | Invited

datatype tenant_status = TenantActive | Suspended | Deleted

record tenant_row =
  t_name :: string
  t_status :: tenant_status

record user_row =
  u_tenant_id :: int
  u_email :: string
  u_first_name :: string
  u_last_name :: string
  u_status :: user_status

record role_row =
  r_tenant_id :: int
  r_name :: string

record session_row =
  s_id :: int
  s_user_id :: int
  s_refresh_token :: string
  s_is_active :: bool
  s_expires_at :: nat
  s_last_used :: nat

record store =
  available :: bool
  tenants :: "int \<rightharpoonup> tenant_row"
  users :: "int \<rightharpoonup> user_row"
  roles :: "int \<rightharpoonup> role_row"
  permissions_table :: "int \<rightharpoonup> string"
  role_permissions :: "(int \<times> int) list"
  user_roles :: "(int \<times> int) list"
  user_sessions :: "session_row list"

text \<open>
  \<open>available\<close> says whether the database answers: \<open>db.query\<close> rejects when it does
  not, which is what the catch-all branch of every handler is for. \<open>role_permissions\<close>
  holds pairs (role id, permission id), \<open>user_roles\<close> pairs (user id, role id), and
  \<open>permissions_table\<close> maps a permission id to its name.
\<close>

datatype exn = JsonWebTokenError | TokenExpiredError | StoreError | TypeError

definition db_query :: "store \<Rightarrow> 'rows \<Rightarrow> exn + 'rows" where
  \<comment> \<open>Modelled from the spec: \<open>db\<close> is the pool of \<open>config/database\<close>, which is not among
     the sources; a statement returns its rows, or is rejected when storage is unavailable
     (section 4.3, step 7)\<close>
  "db_query db rows = (if available db then Inr rows else Inl StoreError)"

datatype query =
  SelectUserTenant int
  | SelectPermissions int
  | SelectSessions string

text \<open>The queries on \<open>user_sessions\<close>; the other two read users, tenants and permissions.\<close>

fun is_session_query :: "query \<Rightarrow> bool" where
  "is_session_query (SelectSessions _) = True"
| "is_session_query (SelectUserTenant _) = False"
| "is_session_query (SelectPermissions _) = False"

section \<open>Requests and responses\<close>

datatype jvalue = JString string | JArray "string list"

type_synonym json = "(string \<times> jvalue) list"

record principal =
  pr_id :: int
  pr_email :: string
  pr_firstName :: string
  pr_lastName :: string
  pr_tenantId :: int
  pr_tenantName :: string
  pr_permissions :: "string list"

record request =
  authorization :: "string option"
  body_refreshToken :: "string option"
  user :: "principal option"

text \<open>
  A middleware either answers the request (\<open>res.status(n).json(body)\<close>), hands it on
  (\<open>next()\<close>) with whatever it attached, or lets an exception escape.
\<close>

datatype result = Reply nat json | Next request | Throw exn

section \<open>Permission gates\<close>

text \<open>
  \<open>checkPermission\<close> and \<open>checkAnyPermission\<close> read \<open>req.user.permissions\<close>; reading a
  property of an undefined \<open>req.user\<close> raises a TypeError in the source. The callback
  of \<open>permissions.some\<close> runs once per element, so with no element it reads nothing.
\<close>

definition js_includes :: "'a list \<Rightarrow> 'a \<Rightarrow> bool" where
  "js_includes xs x = (x \<in> set xs)"

definition checkPermission :: "string \<Rightarrow> request \<Rightarrow> result" where
  "checkPermission permission req =
     (case user req of
        None \<Rightarrow> Throw TypeError
      | Some u \<Rightarrow>
          if \<not> js_includes (pr_permissions u) permission
          then Reply 403 [(''error'', JString ''Insufficient permissions''),
                          (''required'', JString permission)]
          else Next req)"

definition checkAnyPermission :: "string list \<Rightarrow> request \<Rightarrow> result" where
  "checkAnyPermission permissions req =
     (case user req of
        None \<Rightarrow> (if permissions = [] then
                    Reply 403 [(''error'', JString ''Insufficient permissions''),
                               (''required'', JArray permissions)]
                  else Throw TypeError)
      | Some u \<Rightarrow>
          let hasPermission = list_ex (\<lambda>p. js_includes (pr_permissions u) p) permissions
          in if \<not> hasPermission
             then Reply 403 [(''error'', JString ''Insufficient permissions''),
                             (''required'', JArray permissions)]
             else Next req)"

section \<open>The token codec\<close>

text \<open>
  Modelled from the spec: \<open>jwt.sign\<close> and \<open>jwt.verify\<close> belong to the jsonwebtoken
  package, which is not among the sources. Section 4.1 of the specification gives the
  codec: a token carries a payload \<open>{userId, tenantId}\<close> and an expiry, is signed
  with a secret, and verification returns the payload or fails with an invalid
  signature (malformed or tampered token) or with expiry. A token is a string; what a
  string decodes to, and the string a token is written as, are the package's business
  and are parameters here. The signature is symbolic: a token records the secret it was
  signed with, and verifies under that secret only.

  Verification checks the structure, then the signature, then the expiry. This is the
  order of the package: the expiry is a field of the payload, which is read only once
  the signature has been checked. Section 8 of the specification asks both that a
  wrongly signed token is always answered as invalid and that an expired token is
  always answered as expired; for a token that is both, only one of the two can hold.
\<close>

record payload =
  userId :: int
  tenantId :: int

record jwt =
  jwt_payload :: payload
  jwt_secret :: string
  jwt_exp :: nat

record jsonwebtoken =
  decode :: "string \<Rightarrow> jwt option"
  encode :: "jwt \<Rightarrow> string"

definition jwt_verify :: "jsonwebtoken \<Rightarrow> nat \<Rightarrow> string \<Rightarrow> string \<Rightarrow> exn + payload" where
  \<comment> \<open>Modelled from the spec: \<open>verify(token, keyKind)\<close> of section 4.1, at time \<open>clock\<close>\<close>
  "jwt_verify lib clock token secret =
     (case decode lib token of
        None \<Rightarrow> Inl JsonWebTokenError
      | Some t \<Rightarrow>
          if jwt_secret t \<noteq> secret then Inl JsonWebTokenError
          else if jwt_exp t \<le> clock then Inl TokenExpiredError
          else Inr (jwt_payload t))"

definition jwt_sign :: "jsonwebtoken \<Rightarrow> nat \<Rightarrow> payload \<Rightarrow> string \<Rightarrow> nat \<Rightarrow> string" where
  \<comment> \<open>Modelled from the spec: \<open>issueAccessToken(payload, ttl)\<close> of section 4.1, expiry = now + ttl\<close>
  "jwt_sign lib clock p secret expiresIn =
     encode lib \<lparr>jwt_payload = p, jwt_secret = secret, jwt_exp = clock + expiresIn\<rparr>"

text \<open>
  The process environment and the clock. \<open>JWT_EXPIRES_IN\<close> is the lifetime of an
  access token in seconds where the variable is set.
\<close>

record env =
  JWT_SECRET :: string
  JWT_REFRESH_SECRET :: string
  JWT_EXPIRES_IN :: "nat option"
  now :: nat

section \<open>The authentication middleware\<close>

text \<open>\<open>str.split(' ')\<close>: the pieces between single spaces, empty pieces included.\<close>

fun split_space :: "string \<Rightarrow> string list" where
  "split_space [] = [[]]"
| "split_space (c # cs) =
     (if c = CHR '' '' then [] # split_space cs
      else (case split_space cs of
              [] \<Rightarrow> [[c]]
            | w # ws \<Rightarrow> (c # w) # ws))"

definition bearer :: "request \<Rightarrow> string option" where
  \<comment> \<open>\<open>req.headers.authorization?.split(' ')[1]\<close>: undefined without the header or its second piece\<close>
  "bearer req =
     (case authorization req of
        None \<Rightarrow> None
      | Some h \<Rightarrow> (case split_space h of
                    _ # token # _ \<Rightarrow> Some token
                  | _ \<Rightarrow> None))"

definition truthy :: "string option \<Rightarrow> string option" where
  \<comment> \<open>the string a test \<open>if (v)\<close> lets through: neither undefined nor empty\<close>
  "truthy v = (case v of None \<Rightarrow> None | Some s \<Rightarrow> if s = [] then None else Some s)"

text \<open>
  The first query of \<open>verifyToken\<close>: users joined with their tenant, for one user id,
  active users only. The result row carries the columns the middleware reads.
\<close>

record user_tenant_row =
  row_id :: int
  row_email :: string
  row_first_name :: string
  row_last_name :: string
  row_tenant_id :: int
  row_tenant_name :: string
  row_tenant_status :: tenant_status

definition select_user_tenant :: "store \<Rightarrow> int \<Rightarrow> user_tenant_row list" where
  "select_user_tenant db uid =
     (case users db uid of
        None \<Rightarrow> []
      | Some u \<Rightarrow>
          if u_status u = Active then
            (case tenants db (u_tenant_id u) of
               None \<Rightarrow> []
             | Some t \<Rightarrow>
                 [\<lparr>row_id = uid, row_email = u_email u, row_first_name = u_first_name u,
                   row_last_name = u_last_name u, row_tenant_id = u_tenant_id u,
                   row_tenant_name = t_name t, row_tenant_status = t_status t\<rparr>])
          else [])"

text \<open>
  The second query: the distinct names of the permissions joined to the user's rows of
  \<open>user_roles\<close> through \<open>role_permissions\<close>. The \<open>roles\<close> table is not part of the join.
\<close>

definition select_permissions :: "store \<Rightarrow> int \<Rightarrow> string list" where
  "select_permissions db uid =
     remdups [name.
       (ur_user_id, ur_role_id) \<leftarrow> user_roles db, ur_user_id = uid,
       (rp_role_id, rp_permission_id) \<leftarrow> role_permissions db, rp_role_id = ur_role_id,
       name \<leftarrow> (case permissions_table db rp_permission_id of None \<Rightarrow> [] | Some n \<Rightarrow> [n])]"

fun auth_catch :: "exn \<Rightarrow> result" where
  "auth_catch JsonWebTokenError = Reply 401 [(''error'', JString ''Invalid token'')]"
| "auth_catch TokenExpiredError = Reply 401 [(''error'', JString ''Token expired'')]"
| "auth_catch _ = Reply 500 [(''error'', JString ''Authentication failed'')]"

text \<open>
  \<open>verifyToken\<close> returns its answer together with the queries it sent to the store, in
  order. It only reads the store.
\<close>

definition verifyToken :: "jsonwebtoken \<Rightarrow> env \<Rightarrow> store \<Rightarrow> request \<Rightarrow> result \<times> query list" where
  "verifyToken lib e db req =
     (case truthy (bearer req) of
        None \<Rightarrow> (Reply 401 [(''error'', JString ''Access token required'')], [])
      | Some token \<Rightarrow>
        (case jwt_verify lib (now e) token (JWT_SECRET e) of
           Inl err \<Rightarrow> (auth_catch err, [])
         | Inr decoded \<Rightarrow>
             let q1 = SelectUserTenant (userId decoded) in
             (case db_query db (select_user_tenant db (userId decoded)) of
                Inl err \<Rightarrow> (auth_catch err, [q1])
              | Inr [] \<Rightarrow> (Reply 401 [(''error'', JString ''User not found or inactive'')], [q1])
              | Inr (u # _) \<Rightarrow>
                  if row_tenant_status u \<noteq> TenantActive
                  then (Reply 403 [(''error'', JString ''Organization is suspended'')], [q1])
                  else
                    let q2 = SelectPermissions (row_id u) in
                    (case db_query db (select_permissions db (row_id u)) of
                       Inl err \<Rightarrow> (auth_catch err, [q1, q2])
                     | Inr permissions \<Rightarrow>
                         (Next (req\<lparr>user := Some
                            \<lparr>pr_id = row_id u, pr_email = row_email u,
                             pr_firstName = row_first_name u, pr_lastName = row_last_name u,
                             pr_tenantId = row_tenant_id u, pr_tenantName = row_tenant_name u,
                             pr_permissions = permissions\<rparr>\<rparr>),
                          [q1, q2])))))"

section \<open>The session registry\<close>

text \<open>
  The statements on \<open>user_sessions\<close>. The column \<open>last_used\<close> is declared
  \<open>ON UPDATE CURRENT_TIMESTAMP\<close>: an update stamps it on every row it changes, and
  leaves alone a row whose columns already have the values set.

  \<open>revoke\<close> is the update of the logout route, \<open>revokeAll\<close> the one of the
  deactivation route, \<open>revokeById\<close> the one behind \<open>DELETE /auth/sessions/:id\<close>, and
  \<open>select_sessions\<close> the query of the refresh route.
\<close>

definition deactivate :: "nat \<Rightarrow> (session_row \<Rightarrow> bool) \<Rightarrow> store \<Rightarrow> store" where
  \<comment> \<open>\<open>UPDATE user_sessions SET is_active = FALSE WHERE ...\<close> at time \<open>clock\<close>\<close>
  "deactivate clock cond db =
     db\<lparr>user_sessions :=
          map (\<lambda>s. if cond s \<and> s_is_active s
                    then s\<lparr>s_is_active := False, s_last_used := clock\<rparr> else s)
              (user_sessions db)\<rparr>"

definition revoke :: "nat \<Rightarrow> store \<Rightarrow> string \<Rightarrow> store" where
  "revoke clock db refreshToken = deactivate clock (\<lambda>s. s_refresh_token s = refreshToken) db"

definition revokeAll :: "nat \<Rightarrow> store \<Rightarrow> int \<Rightarrow> store" where
  "revokeAll clock db uid = deactivate clock (\<lambda>s. s_user_id s = uid) db"

definition revokeById :: "nat \<Rightarrow> store \<Rightarrow> int \<Rightarrow> int \<Rightarrow> store" where
  "revokeById clock db sid uid = deactivate clock (\<lambda>s. s_id s = sid \<and> s_user_id s = uid) db"

definition select_sessions :: "store \<Rightarrow> nat \<Rightarrow> string \<Rightarrow> session_row list" where
  "select_sessions db clock refreshToken =
     filter (\<lambda>s. s_refresh_token s = refreshToken \<and> s_is_active s \<and> clock < s_expires_at s)
            (user_sessions db)"

definition isSessionValid :: "store \<Rightarrow> nat \<Rightarrow> string \<Rightarrow> bool" where
  "isSessionValid db clock refreshToken = (length (select_sessions db clock refreshToken) \<noteq> 0)"

subsection \<open>POST /auth/logout\<close>

definition logout_handler :: "nat \<Rightarrow> store \<Rightarrow> request \<Rightarrow> result \<times> store" where
  "logout_handler clock db req =
     (case truthy (body_refreshToken req) of
        None \<Rightarrow> (Reply 200 [(''message'', JString ''Logged out successfully'')], db)
      | Some refreshToken \<Rightarrow>
          (case db_query db (revoke clock db refreshToken) of
             Inl err \<Rightarrow> (Reply 500 [(''error'', JString ''Logout failed'')], db)
           | Inr db' \<Rightarrow> (Reply 200 [(''message'', JString ''Logged out successfully'')], db')))"

definition logout :: "jsonwebtoken \<Rightarrow> env \<Rightarrow> store \<Rightarrow> request \<Rightarrow> result \<times> store" where
  \<comment> \<open>the route: \<open>verifyToken\<close>, then the handler\<close>
  "logout lib e db req =
     (case fst (verifyToken lib e db req) of
        Next req' \<Rightarrow> logout_handler (now e) db req'
      | r \<Rightarrow> (r, db))"

subsection \<open>POST /auth/refresh-token\<close>

fun refresh_catch :: "exn \<Rightarrow> result" where
  "refresh_catch JsonWebTokenError = Reply 401 [(''error'', JString ''Invalid refresh token'')]"
| "refresh_catch TokenExpiredError = Reply 401 [(''error'', JString ''Invalid refresh token'')]"
| "refresh_catch _ = Reply 500 [(''error'', JString ''Token refresh failed'')]"

definition access_ttl :: "env \<Rightarrow> nat" where
  \<comment> \<open>\<open>process.env.JWT_EXPIRES_IN || '1h'\<close>, in seconds\<close>
  "access_ttl e = (case JWT_EXPIRES_IN e of None \<Rightarrow> 3600 | Some n \<Rightarrow> n)"

definition refresh_token_route ::
  "jsonwebtoken \<Rightarrow> env \<Rightarrow> store \<Rightarrow> request \<Rightarrow> result \<times> query list" where
  "refresh_token_route lib e db req =
     (case truthy (body_refreshToken req) of
        None \<Rightarrow> (Reply 400 [(''error'', JString ''Refresh token required'')], [])
      | Some refreshToken \<Rightarrow>
          (case jwt_verify lib (now e) refreshToken (JWT_REFRESH_SECRET e) of
             Inl err \<Rightarrow> (refresh_catch err, [])
           | Inr decoded \<Rightarrow>
               let q = SelectSessions refreshToken in
               (case db_query db (select_sessions db (now e) refreshToken) of
                  Inl err \<Rightarrow> (refresh_catch err, [q])
                | Inr [] \<Rightarrow>
                    (Reply 401 [(''error'', JString ''Invalid or expired refresh token'')], [q])
                | Inr (_ # _) \<Rightarrow>
                    (Reply 200 [(''accessToken'', JString
                       (jwt_sign lib (now e)
                          \<lparr>userId = userId decoded, tenantId = tenantId decoded\<rparr>
                          (JWT_SECRET e) (access_ttl e)))],
                     [q]))))"

section \<open>Assigning a role\<close>

text \<open>
  \<open>PUT /users/:id/role\<close>, the route that changes the rows of \<open>user_roles\<close> of an
  existing user, behind \<open>verifyToken\<close> and \<open>checkPermission('users.edit')\<close>. It
  looks the user and the role up within the tenant of the acting principal, then
  replaces the user's rows by the one new row. The audit-log row it also writes is in a
  table that is not modelled.
\<close>

definition select_user_in_tenant :: "store \<Rightarrow> int \<Rightarrow> int \<Rightarrow> int list" where
  \<comment> \<open>\<open>SELECT id FROM users WHERE id = ? AND tenant_id = ?\<close>\<close>
  "select_user_in_tenant db uid tid =
     (case users db uid of
        None \<Rightarrow> []
      | Some u \<Rightarrow> if u_tenant_id u = tid then [uid] else [])"

definition select_role_in_tenant :: "store \<Rightarrow> int \<Rightarrow> int \<Rightarrow> int list" where
  \<comment> \<open>\<open>SELECT id FROM roles WHERE id = ? AND tenant_id = ?\<close>\<close>
  "select_role_in_tenant db rid tid =
     (case roles db rid of
        None \<Rightarrow> []
      | Some r \<Rightarrow> if r_tenant_id r = tid then [rid] else [])"

definition replace_user_roles :: "store \<Rightarrow> int \<Rightarrow> int \<Rightarrow> store" where
  \<comment> \<open>\<open>DELETE FROM user_roles WHERE user_id = ?\<close>, then the \<open>INSERT\<close> of the new pair\<close>
  "replace_user_roles db uid rid =
     db\<lparr>user_roles := filter (\<lambda>(ur_user_id, ur_role_id). ur_user_id \<noteq> uid) (user_roles db)
                        @ [(uid, rid)]\<rparr>"

definition update_user_role :: "store \<Rightarrow> principal \<Rightarrow> int \<Rightarrow> int \<Rightarrow> result \<times> store" where
  "update_user_role db actor uid roleId =
     (if uid = pr_id actor
      then (Reply 400 [(''error'', JString ''Cannot change your own role'')], db)
      else
        (case db_query db (select_user_in_tenant db uid (pr_tenantId actor)) of
           Inl err \<Rightarrow> (Reply 500 [(''error'', JString ''Failed to update role'')], db)
         | Inr [] \<Rightarrow> (Reply 404 [(''error'', JString ''User not found'')], db)
         | Inr (_ # _) \<Rightarrow>
             (case db_query db (select_role_in_tenant db roleId (pr_tenantId actor)) of
                Inl err \<Rightarrow> (Reply 500 [(''error'', JString ''Failed to update role'')], db)
              | Inr [] \<Rightarrow> (Reply 404 [(''error'', JString ''Role not found'')], db)
              | Inr (_ # _) \<Rightarrow>
                  (case db_query db (replace_user_roles db uid roleId) of
                     Inl err \<Rightarrow> (Reply 500 [(''error'', JString ''Failed to update role'')], db)
                   | Inr db' \<Rightarrow>
                       (Reply 200 [(''message'', JString ''User role updated successfully'')],
                        db')))))"

section \<open>What the specification calls the effective permission set\<close>

text \<open>
  These definitions follow the words of the specification, to be compared with what the
  queries of the source return: the roles assigned to a user, the permissions a role
  bundles, and the union over the assigned roles; then the same restricted to the roles
  that belong to a given tenant.
\<close>

definition spec_roles_of_user :: "store \<Rightarrow> int \<Rightarrow> int set" where
  "spec_roles_of_user db uid = {r. (uid, r) \<in> set (user_roles db)}"

definition spec_permissions_of_role :: "store \<Rightarrow> int \<Rightarrow> string set" where
  "spec_permissions_of_role db r =
     {n. \<exists>pid. (r, pid) \<in> set (role_permissions db) \<and> permissions_table db pid = Some n}"

definition spec_effective_permissions :: "store \<Rightarrow> int \<Rightarrow> string set" where
  "spec_effective_permissions db uid =
     \<Union> (spec_permissions_of_role db ` spec_roles_of_user db uid)"

definition spec_role_in_tenant :: "store \<Rightarrow> int \<Rightarrow> int \<Rightarrow> bool" where
  "spec_role_in_tenant db tid r =
     (case roles db r of None \<Rightarrow> False | Some ro \<Rightarrow> r_tenant_id ro = tid)"

definition spec_tenant_permissions :: "store \<Rightarrow> int \<Rightarrow> int \<Rightarrow> string set" where
  "spec_tenant_permissions db tid uid =
     \<Union> (spec_permissions_of_role db `
          {r. r \<in> spec_roles_of_user db uid \<and> spec_role_in_tenant db tid r})"

text \<open>
  The write paths of the source (registration, \<open>PUT /users/:id/role\<close>) assign a user
  only roles of the user's own organization. As a condition on the store: every row of
  \<open>user_roles\<close> joins a user to a role of that user's tenant.
\<close>

definition spec_assignments_scoped :: "store \<Rightarrow> bool" where
  "spec_assignments_scoped db =
     list_all (\<lambda>(uid, r). case users db uid of
                             None \<Rightarrow> False
                           | Some u \<Rightarrow> spec_role_in_tenant db (u_tenant_id u) r)
              (user_roles db)"

section \<open>A small installation\<close>

text \<open>
  Two organizations, the second suspended; four users; three roles; three of the seeded
  permissions under the ids the schema's insert gives them. User 1 holds the roles
  Member and Manager of organization 1.
\<close>

definition example_store :: store where
  "example_store =
     \<lparr>available = True,
      tenants = [1 \<mapsto> \<lparr>t_name = ''Acme'', t_status = TenantActive\<rparr>,
                 2 \<mapsto> \<lparr>t_name = ''Globex'', t_status = Suspended\<rparr>],
      users = [1 \<mapsto> \<lparr>u_tenant_id = 1, u_email = ''ada@acme.test'', u_first_name = ''Ada'',
                       u_last_name = ''Lee'', u_status = Active\<rparr>,
               2 \<mapsto> \<lparr>u_tenant_id = 2, u_email = ''bo@globex.test'', u_first_name = ''Bo'',
                       u_last_name = ''Kim'', u_status = Active\<rparr>,
               3 \<mapsto> \<lparr>u_tenant_id = 1, u_email = ''cy@acme.test'', u_first_name = ''Cy'',
                       u_last_name = ''Roy'', u_status = Inactive\<rparr>,
               4 \<mapsto> \<lparr>u_tenant_id = 2, u_email = ''di@globex.test'', u_first_name = ''Di'',
                       u_last_name = ''Paz'', u_status = Inactive\<rparr>],
      roles = [10 \<mapsto> \<lparr>r_tenant_id = 1, r_name = ''Member''\<rparr>,
               11 \<mapsto> \<lparr>r_tenant_id = 1, r_name = ''Manager''\<rparr>,
               20 \<mapsto> \<lparr>r_tenant_id = 2, r_name = ''Admin''\<rparr>],
      permissions_table = [9 \<mapsto> ''tasks.view'', 10 \<mapsto> ''tasks.create'',
                           12 \<mapsto> ''tasks.delete''],
      role_permissions = [(10, 9), (11, 9), (11, 10), (20, 12)],
      user_roles = [(1, 10), (1, 11), (2, 20), (3, 10)],
      user_sessions =
        [\<lparr>s_id = 1, s_user_id = 1, s_refresh_token = ''refresh-1'', s_is_active = True,
          s_expires_at = 1000, s_last_used = 0\<rparr>,
         \<lparr>s_id = 2, s_user_id = 2, s_refresh_token = ''refresh-2'', s_is_active = True,
          s_expires_at = 1000, s_last_used = 0\<rparr>,
         \<lparr>s_id = 3, s_user_id = 3, s_refresh_token = ''refresh-3'', s_is_active = True,
          s_expires_at = 1000, s_last_used = 0\<rparr>]\<rparr>"

definition example_env :: env where
  "example_env =
     \<lparr>JWT_SECRET = ''access-secret'', JWT_REFRESH_SECRET = ''refresh-secret'',
      JWT_EXPIRES_IN = None, now = 100\<rparr>"

definition example_token :: "int \<Rightarrow> int \<Rightarrow> string \<Rightarrow> nat \<Rightarrow> jwt" where
  "example_token uid tid secret expiry =
     \<lparr>jwt_payload = \<lparr>userId = uid, tenantId = tid\<rparr>, jwt_secret = secret, jwt_exp = expiry\<rparr>"

text \<open>
  The strings that decode to a token; every other string is malformed. The tokens
  named \<open>forged\<close> are signed with a secret that is not the server's, those named
  \<open>stale\<close> expired before the clock of \<open>example_env\<close>.
\<close>

definition example_lib :: jsonwebtoken where
  "example_lib =
     \<lparr>decode = map_of
        [(''access-1'', example_token 1 1 ''access-secret'' 200),
         (''access-2'', example_token 2 2 ''access-secret'' 200),
         (''access-3'', example_token 3 1 ''access-secret'' 200),
         (''access-4'', example_token 4 2 ''access-secret'' 200),
         (''stale-1'', example_token 1 1 ''access-secret'' 99),
         (''forged-1'', example_token 1 1 ''guess'' 200),
         (''forged-stale-1'', example_token 1 1 ''guess'' 99),
         (''refresh-1'', example_token 1 1 ''refresh-secret'' 1000),
         (''refresh-2'', example_token 2 2 ''refresh-secret'' 1000),
         (''refresh-3'', example_token 3 1 ''refresh-secret'' 1000)],
      encode = (\<lambda>t. ''jwt-'' @ jwt_secret t)\<rparr>"

definition bearer_request :: "string \<Rightarrow> request" where
  "bearer_request token =
     \<lparr>authorization = Some (''Bearer '' @ token), body_refreshToken = None, user = None\<rparr>"

definition refresh_request :: "string \<Rightarrow> request" where
  "refresh_request token =
     \<lparr>authorization = None, body_refreshToken = Some token, user = None\<rparr>"

text \<open>User 1 of organization 1 holding, by a stray row, the Admin role of organization 2.\<close>

definition crossed_store :: store where
  "crossed_store = example_store\<lparr>user_roles := [(1, 20)]\<rparr>"

section \<open>Facts about the queries\<close>

text \<open>What the permission query returns, as a set, and that it has no repetition.\<close>

lemma option_row_set:
  "set (case v of None \<Rightarrow> [] | Some n \<Rightarrow> [n]) = {n. v = Some n}"
  by (cases v) auto

lemma in_select_permissions:
  "n \<in> set (select_permissions db uid) \<longleftrightarrow>
     (\<exists>r pid. (uid, r) \<in> set (user_roles db) \<and> (r, pid) \<in> set (role_permissions db)
        \<and> permissions_table db pid = Some n)"
  unfolding select_permissions_def
  by (simp add: option_row_set split_def cong: if_cong) force

lemma set_select_permissions:
  "set (select_permissions db uid) = spec_effective_permissions db uid"
proof (rule set_eqI)
  fix n
  show "n \<in> set (select_permissions db uid) \<longleftrightarrow> n \<in> spec_effective_permissions db uid"
    unfolding in_select_permissions spec_effective_permissions_def
      spec_roles_of_user_def spec_permissions_of_role_def
    by blast
qed

lemma distinct_select_permissions: "distinct (select_permissions db uid)"
  by (simp add: select_permissions_def)

text \<open>
  Where every assignment stays inside the user's tenant, the effective permissions of a
  user are the ones granted through the roles of that tenant.
\<close>

lemma scoped_tenant_permissions:
  assumes "users db uid = Some u"
    and "spec_assignments_scoped db"
  shows "spec_effective_permissions db uid = spec_tenant_permissions db (u_tenant_id u) uid"
proof -
  have "spec_role_in_tenant db (u_tenant_id u) r" if "(uid, r) \<in> set (user_roles db)" for r
    using that assms by (auto simp: spec_assignments_scoped_def list_all_iff)
  then show ?thesis
    by (auto simp: spec_tenant_permissions_def spec_effective_permissions_def
        spec_roles_of_user_def)
qed

text \<open>
  \<open>PUT /users/:id/role\<close> keeps every assignment inside the user's tenant: it writes
  the new row only after finding both the user and the role in the tenant of the
  acting principal.
\<close>

lemma spec_role_in_tenant_user_roles [simp]:
  "spec_role_in_tenant (db\<lparr>user_roles := x\<rparr>) tid r = spec_role_in_tenant db tid r"
  by (simp add: spec_role_in_tenant_def)

lemma update_user_role_keeps_scope:
  assumes "spec_assignments_scoped db"
  shows "spec_assignments_scoped (snd (update_user_role db actor uid roleId))"
proof (cases "fst (update_user_role db actor uid roleId)
              = Reply 200 [(''message'', JString ''User role updated successfully'')]")
  case False
  then have "snd (update_user_role db actor uid roleId) = db"
    by (simp add: update_user_role_def split: sum.splits list.splits if_splits)
  with assms show ?thesis by simp
next
  case True
  then have u: "select_user_in_tenant db uid (pr_tenantId actor) \<noteq> []"
    and r: "select_role_in_tenant db roleId (pr_tenantId actor) \<noteq> []"
    and db': "snd (update_user_role db actor uid roleId) = replace_user_roles db uid roleId"
    by (auto simp: update_user_role_def db_query_def split: sum.splits list.splits if_splits)
  from u obtain usr where usr: "users db uid = Some usr" "u_tenant_id usr = pr_tenantId actor"
    by (auto simp: select_user_in_tenant_def split: option.splits if_splits)
  from r have "spec_role_in_tenant db (pr_tenantId actor) roleId"
    by (auto simp: select_role_in_tenant_def spec_role_in_tenant_def split: option.splits if_splits)
  with usr assms have "spec_assignments_scoped (replace_user_roles db uid roleId)"
    by (auto simp: spec_assignments_scoped_def replace_user_roles_def list_all_iff
        split: option.splits)
  with db' show ?thesis by simp
qed

text \<open>Neither query of the middleware reads \<open>user_sessions\<close>.\<close>

lemma select_user_tenant_sessions [simp]:
  "select_user_tenant (db\<lparr>user_sessions := ss\<rparr>) uid = select_user_tenant db uid"
  by (simp add: select_user_tenant_def split: option.splits)

lemma select_permissions_sessions [simp]:
  "select_permissions (db\<lparr>user_sessions := ss\<rparr>) uid = select_permissions db uid"
  by (simp add: select_permissions_def cong: if_cong option.case_cong)

lemma db_query_sessions [simp]:
  "db_query (db\<lparr>user_sessions := ss\<rparr>) rows = db_query db rows"
  by (simp add: db_query_def)

lemma verifyToken_ignores_sessions:
  "verifyToken lib e (db\<lparr>user_sessions := ss\<rparr>) req = verifyToken lib e db req"
  by (simp add: verifyToken_def Let_def cong: option.case_cong sum.case_cong list.case_cong if_cong)

text \<open>A token that decodes, is signed with the secret asked for, and has not expired.\<close>

lemma jwt_verify_ok:
  "decode lib token = Some t \<Longrightarrow> jwt_secret t = secret \<Longrightarrow> clock < jwt_exp t \<Longrightarrow>
   jwt_verify lib clock token secret = Inr (jwt_payload t)"
  by (simp add: jwt_verify_def)

text \<open>
  When the middleware hands the request on, the principal it attached was built from
  the row of an existing user and of that user's tenant.
\<close>

lemma auth_catch_not_Next [simp]: "auth_catch err \<noteq> Next r"
  by (cases err) simp_all

lemma select_user_tenant_Cons:
  assumes "select_user_tenant db uid = r # rs"
  shows "\<exists>u tn. users db uid = Some u \<and> tenants db (u_tenant_id u) = Some tn
           \<and> r = \<lparr>row_id = uid, row_email = u_email u, row_first_name = u_first_name u,
                   row_last_name = u_last_name u, row_tenant_id = u_tenant_id u,
                   row_tenant_name = t_name tn, row_tenant_status = t_status tn\<rparr>"
  using assms
  by (cases "users db uid"; cases "tenants db (u_tenant_id (the (users db uid)))")
     (auto simp: select_user_tenant_def split: if_splits)

lemma verifyToken_Next_row:
  assumes "fst (verifyToken lib e db req) = Next req'"
  shows "\<exists>uid r rs. select_user_tenant db uid = r # rs
           \<and> req' = req\<lparr>user := Some
                \<lparr>pr_id = row_id r, pr_email = row_email r, pr_firstName = row_first_name r,
                 pr_lastName = row_last_name r, pr_tenantId = row_tenant_id r,
                 pr_tenantName = row_tenant_name r,
                 pr_permissions = select_permissions db (row_id r)\<rparr>\<rparr>"
proof (cases "truthy (bearer req)")
  case None
  with assms show ?thesis by (simp add: verifyToken_def)
next
  case (Some token)
  show ?thesis
  proof (cases "jwt_verify lib (now e) token (JWT_SECRET e)")
    case (Inl err)
    with Some assms show ?thesis by (simp add: verifyToken_def)
  next
    case (Inr decoded)
    show ?thesis
    proof (cases "available db")
      case False
      with Some Inr assms show ?thesis by (simp add: verifyToken_def db_query_def)
    next
      case True
      show ?thesis
      proof (cases "select_user_tenant db (userId decoded)")
        case Nil
        with Some Inr True assms show ?thesis by (simp add: verifyToken_def db_query_def)
      next
        case (Cons r rs)
        with Some Inr True assms have
          "req' = req\<lparr>user := Some
                \<lparr>pr_id = row_id r, pr_email = row_email r, pr_firstName = row_first_name r,
                 pr_lastName = row_last_name r, pr_tenantId = row_tenant_id r,
                 pr_tenantName = row_tenant_name r,
                 pr_permissions = select_permissions db (row_id r)\<rparr>\<rparr>"
          by (simp add: verifyToken_def db_query_def Let_def split: if_splits)
        with Cons show ?thesis by blast
      qed
    qed
  qed
qed

lemma verifyToken_Next:
  assumes "fst (verifyToken lib e db req) = Next req'"
  shows "\<exists>uid u tn. users db uid = Some u \<and> tenants db (u_tenant_id u) = Some tn
           \<and> req' = req\<lparr>user := Some
                \<lparr>pr_id = uid, pr_email = u_email u, pr_firstName = u_first_name u,
                 pr_lastName = u_last_name u, pr_tenantId = u_tenant_id u,
                 pr_tenantName = t_name tn, pr_permissions = select_permissions db uid\<rparr>\<rparr>"
proof -
  from verifyToken_Next_row [OF assms] obtain uid r rs where
    sel: "select_user_tenant db uid = r # rs"
    and req': "req' = req\<lparr>user := Some
                \<lparr>pr_id = row_id r, pr_email = row_email r, pr_firstName = row_first_name r,
                 pr_lastName = row_last_name r, pr_tenantId = row_tenant_id r,
                 pr_tenantName = row_tenant_name r,
                 pr_permissions = select_permissions db (row_id r)\<rparr>\<rparr>"
    by blast
  from select_user_tenant_Cons [OF sel] obtain u tn where
    u: "users db uid = Some u" and tn: "tenants db (u_tenant_id u) = Some tn"
    and r: "r = \<lparr>row_id = uid, row_email = u_email u, row_first_name = u_first_name u,
          row_last_name = u_last_name u, row_tenant_id = u_tenant_id u,
          row_tenant_name = t_name tn, row_tenant_status = t_status tn\<rparr>"
    by blast
  from req' r u tn show ?thesis
    by (intro exI[of _ uid] exI[of _ u] exI[of _ tn]) simp
qed

section \<open>Facts about the session registry\<close>

lemma deactivate_deactivate:
  "deactivate c' cond (deactivate c cond db) = deactivate c cond db"
  by (simp add: deactivate_def o_def cong: if_cong)

lemma filter_deactivated:
  "filter (\<lambda>s. s_refresh_token s = t \<and> s_is_active s \<and> c' < s_expires_at s)
     (map (\<lambda>s. if s_refresh_token s = t \<and> s_is_active s
                 then s\<lparr>s_is_active := False, s_last_used := c\<rparr> else s) xs) = []"
  by (induction xs) auto

lemma select_sessions_revoke: "select_sessions (revoke c db t) c' t = []"
  by (simp add: select_sessions_def revoke_def deactivate_def filter_deactivated)

lemma revoke_absent:
  assumes "t \<notin> s_refresh_token ` set (user_sessions db)"
  shows "revoke c db t = db"
proof -
  have "map (\<lambda>s. if s_refresh_token s = t \<and> s_is_active s
                  then s\<lparr>s_is_active := False, s_last_used := c\<rparr> else s) (user_sessions db)
        = user_sessions db"
    using assms by (intro map_idI) auto
  then show ?thesis by (simp add: revoke_def deactivate_def)
qed

lemma available_deactivate [simp]: "available (deactivate c cond db) = available db"
  by (simp add: deactivate_def)

lemma logout_revokes:
  assumes "fst (verifyToken lib e db req) = Next req'"
    and "available db"
    and "truthy (body_refreshToken req) = Some t"
  shows "logout lib e db req
           = (Reply 200 [(''message'', JString ''Logged out successfully'')], revoke (now e) db t)"
proof -
  from verifyToken_Next [OF assms(1)] have "body_refreshToken req' = body_refreshToken req"
    by auto
  with assms show ?thesis
    by (simp add: logout_def logout_handler_def db_query_def)
qed

text \<open>The refresh route reads neither \<open>users\<close> nor \<open>tenants\<close>.\<close>

lemma payload_eta: "\<lparr>userId = userId d, tenantId = tenantId d\<rparr> = (d::payload)"
  by simp

lemma select_sessions_users_tenants [simp]:
  "select_sessions (db\<lparr>users := us, tenants := ts\<rparr>) c t = select_sessions db c t"
  by (simp add: select_sessions_def)

lemma refresh_ignores_users_tenants:
  "refresh_token_route lib e (db\<lparr>users := us, tenants := ts\<rparr>) req
     = refresh_token_route lib e db req"
  by (simp add: refresh_token_route_def db_query_def Let_def
      cong: option.case_cong sum.case_cong)

lemma refresh_catch_queries:
  "list_all is_session_query (snd (refresh_token_route lib e db req))"
  by (simp add: refresh_token_route_def Let_def split: option.splits sum.splits list.splits)

section \<open>The authentication middleware: results\<close>

text \<open>
  C1. A request whose bearer token is well formed, signed with the access-token secret
  and not expired, and whose \<open>userId\<close> is the id of a user with status active in a
  tenant with status active, is handed on (the store answering), with a principal for
  that user and tenant attached whose permissions, as a set, are the union of the
  permissions of every role assigned to the user, each listed once.
\<close>

theorem authenticate_admits:
  assumes tok: "truthy (bearer req) = Some token"
    and dec: "decode lib token = Some t"
    and sig: "jwt_secret t = JWT_SECRET e"
    and exp: "now e < jwt_exp t"
    and up: "available db"
    and usr: "users db (userId (jwt_payload t)) = Some u"
    and act: "u_status u = Active"
    and ten: "tenants db (u_tenant_id u) = Some tn"
    and tact: "t_status tn = TenantActive"
  shows "\<exists>p. fst (verifyToken lib e db req) = Next (req\<lparr>user := Some p\<rparr>)
           \<and> pr_id p = userId (jwt_payload t)
           \<and> pr_tenantId p = u_tenant_id u
           \<and> set (pr_permissions p) = spec_effective_permissions db (userId (jwt_payload t))
           \<and> distinct (pr_permissions p)"
proof -
  have v: "jwt_verify lib (now e) token (JWT_SECRET e) = Inr (jwt_payload t)"
    using dec sig exp by (simp add: jwt_verify_ok)
  let ?p = "\<lparr>pr_id = userId (jwt_payload t), pr_email = u_email u,
              pr_firstName = u_first_name u, pr_lastName = u_last_name u,
              pr_tenantId = u_tenant_id u, pr_tenantName = t_name tn,
              pr_permissions = select_permissions db (userId (jwt_payload t))\<rparr>"
  have "fst (verifyToken lib e db req) = Next (req\<lparr>user := Some ?p\<rparr>)"
    using tok v up usr act ten tact
    by (simp add: verifyToken_def db_query_def select_user_tenant_def)
  moreover have "set (pr_permissions ?p) = spec_effective_permissions db (userId (jwt_payload t))"
    by (simp add: set_select_permissions)
  moreover have "distinct (pr_permissions ?p)"
    by (simp add: distinct_select_permissions)
  ultimately show ?thesis
    by (intro exI[of _ ?p]) simp
qed

text \<open>
  In the small installation, user 1 is admitted with the permissions of the roles
  Member and Manager, \<open>tasks.view\<close> listed once.
\<close>

theorem authenticate_admits_witness:
  "fst (verifyToken example_lib example_env example_store (bearer_request ''access-1''))
     = Next ((bearer_request ''access-1'')\<lparr>user := Some
         \<lparr>pr_id = 1, pr_email = ''ada@acme.test'', pr_firstName = ''Ada'', pr_lastName = ''Lee'',
          pr_tenantId = 1, pr_tenantName = ''Acme'',
          pr_permissions = [''tasks.view'', ''tasks.create'']\<rparr>\<rparr>)
   \<and> spec_effective_permissions example_store 1 = {''tasks.view'', ''tasks.create''}"
proof -
  let ?req = "bearer_request ''access-1''"
  have ev: "fst (verifyToken example_lib example_env example_store ?req)
     = Next (?req\<lparr>user := Some
         \<lparr>pr_id = 1, pr_email = ''ada@acme.test'', pr_firstName = ''Ada'', pr_lastName = ''Lee'',
          pr_tenantId = 1, pr_tenantName = ''Acme'',
          pr_permissions = [''tasks.view'', ''tasks.create'']\<rparr>\<rparr>)"
    by (simp add: example_store_def example_env_def example_lib_def example_token_def
        bearer_request_def verifyToken_def bearer_def truthy_def jwt_verify_def
        db_query_def select_user_tenant_def select_permissions_def)
  have "\<exists>p. fst (verifyToken example_lib example_env example_store ?req)
          = Next (?req\<lparr>user := Some p\<rparr>)
      \<and> pr_id p = userId (jwt_payload (example_token 1 1 ''access-secret'' 200))
      \<and> pr_tenantId p = 1
      \<and> set (pr_permissions p) = spec_effective_permissions example_store
            (userId (jwt_payload (example_token 1 1 ''access-secret'' 200)))
      \<and> distinct (pr_permissions p)"
    using authenticate_admits [of ?req "''access-1''" example_lib
      "example_token 1 1 ''access-secret'' 200" example_env example_store
      "\<lparr>u_tenant_id = 1, u_email = ''ada@acme.test'', u_first_name = ''Ada'',
        u_last_name = ''Lee'', u_status = Active\<rparr>"
      "\<lparr>t_name = ''Acme'', t_status = TenantActive\<rparr>"]
    by (simp add: example_store_def example_env_def example_lib_def example_token_def
        bearer_request_def bearer_def truthy_def)
  then obtain p where
    p: "fst (verifyToken example_lib example_env example_store ?req) = Next (?req\<lparr>user := Some p\<rparr>)"
    and ps: "set (pr_permissions p) = spec_effective_permissions example_store 1"
    by (auto simp: example_token_def)
  from p ev have "p = \<lparr>pr_id = 1, pr_email = ''ada@acme.test'', pr_firstName = ''Ada'',
      pr_lastName = ''Lee'', pr_tenantId = 1, pr_tenantName = ''Acme'',
      pr_permissions = [''tasks.view'', ''tasks.create'']\<rparr>"
    by (simp add: bearer_request_def)
  with ps have "spec_effective_permissions example_store 1 = {''tasks.view'', ''tasks.create''}"
    by auto
  with ev show ?thesis by simp
qed

text \<open>
  C2. With a token that verifies and the store answering: when the decoded \<open>userId\<close>
  is not the id of an active user the answer is 401 "User not found or inactive",
  whatever the state of any tenant; when the user is active and the tenant's status
  is not active the answer is 403 "Organization is suspended".
\<close>

theorem user_check_precedes_tenant_check:
  assumes "truthy (bearer req) = Some token"
    and "jwt_verify lib (now e) token (JWT_SECRET e) = Inr decoded"
    and "available db"
  shows "((users db (userId decoded) = None
            \<or> (\<exists>u. users db (userId decoded) = Some u \<and> u_status u \<noteq> Active))
          \<longrightarrow> fst (verifyToken lib e db req)
                = Reply 401 [(''error'', JString ''User not found or inactive'')])
       \<and> (\<forall>u tn. users db (userId decoded) = Some u \<and> u_status u = Active
                  \<and> tenants db (u_tenant_id u) = Some tn \<and> t_status tn \<noteq> TenantActive
          \<longrightarrow> fst (verifyToken lib e db req)
                = Reply 403 [(''error'', JString ''Organization is suspended'')])"
  using assms
  by (auto simp: verifyToken_def db_query_def select_user_tenant_def)

text \<open>
  User 4 is inactive in the suspended organization and gets the 401; user 2 is active
  in it and gets the 403.
\<close>

theorem user_check_precedes_tenant_check_witness:
  "fst (verifyToken example_lib example_env example_store (bearer_request ''access-4''))
     = Reply 401 [(''error'', JString ''User not found or inactive'')]
   \<and> fst (verifyToken example_lib example_env example_store (bearer_request ''access-2''))
     = Reply 403 [(''error'', JString ''Organization is suspended'')]"
  using
    user_check_precedes_tenant_check [of "bearer_request ''access-4''" "''access-4''"
      example_lib example_env "\<lparr>userId = 4, tenantId = 2\<rparr>" example_store]
    user_check_precedes_tenant_check [of "bearer_request ''access-2''" "''access-2''"
      example_lib example_env "\<lparr>userId = 2, tenantId = 2\<rparr>" example_store]
  by (simp add: example_store_def example_env_def example_lib_def example_token_def
      bearer_request_def bearer_def truthy_def jwt_verify_def)

text \<open>
  C3, as stated, says that every token past its expiry is answered 401 "Token expired",
  a wrongly signed one included. It fails: the signature is checked first, so a token
  that is both expired and signed with another secret is answered "Invalid token".
\<close>

theorem expired_token_counterexample:
  "truthy (bearer (bearer_request ''forged-stale-1'')) = Some ''forged-stale-1''
   \<and> decode example_lib ''forged-stale-1'' = Some (example_token 1 1 ''guess'' 99)
   \<and> jwt_exp (example_token 1 1 ''guess'' 99) < now example_env
   \<and> fst (verifyToken example_lib example_env example_store (bearer_request ''forged-stale-1''))
       = Reply 401 [(''error'', JString ''Invalid token'')]
   \<and> fst (verifyToken example_lib example_env example_store (bearer_request ''forged-stale-1''))
       \<noteq> Reply 401 [(''error'', JString ''Token expired'')]"
  by (simp add: example_store_def example_env_def example_lib_def example_token_def
      bearer_request_def verifyToken_def bearer_def truthy_def jwt_verify_def)

text \<open>
  C3, amended. A well-formed token past its expiry is answered 401 "Token expired"
  when it is signed with the access-token secret, and 401 "Invalid token" when it is
  not; in both cases no query is sent.
\<close>

theorem expired_token_rejected:
  assumes "truthy (bearer req) = Some token"
    and "decode lib token = Some t"
    and "jwt_exp t \<le> now e"
  shows "(jwt_secret t = JWT_SECRET e \<longrightarrow>
            verifyToken lib e db req = (Reply 401 [(''error'', JString ''Token expired'')], []))
       \<and> (jwt_secret t \<noteq> JWT_SECRET e \<longrightarrow>
            verifyToken lib e db req = (Reply 401 [(''error'', JString ''Invalid token'')], []))"
  using assms by (simp add: verifyToken_def jwt_verify_def)

theorem expired_token_rejected_witness:
  "verifyToken example_lib example_env example_store (bearer_request ''stale-1'')
     = (Reply 401 [(''error'', JString ''Token expired'')], [])
   \<and> verifyToken example_lib example_env example_store (bearer_request ''forged-stale-1'')
     = (Reply 401 [(''error'', JString ''Invalid token'')], [])"
  using
    expired_token_rejected [of "bearer_request ''stale-1''" "''stale-1''" example_lib
      "example_token 1 1 ''access-secret'' 99" example_env example_store]
    expired_token_rejected [of "bearer_request ''forged-stale-1''" "''forged-stale-1''" example_lib
      "example_token 1 1 ''guess'' 99" example_env example_store]
  by (simp add: example_store_def example_env_def example_lib_def example_token_def
      bearer_request_def bearer_def truthy_def)

text \<open>
  C4. A bearer token that is malformed, or signed with a secret other than the
  access-token secret, is answered 401 "Invalid token", and the middleware sends no
  query to the store for that request.
\<close>

theorem invalid_token_rejected_before_lookup:
  assumes "truthy (bearer req) = Some token"
    and "decode lib token = None
         \<or> (\<exists>t. decode lib token = Some t \<and> jwt_secret t \<noteq> JWT_SECRET e)"
  shows "verifyToken lib e db req = (Reply 401 [(''error'', JString ''Invalid token'')], [])"
  using assms by (auto simp: verifyToken_def jwt_verify_def)

theorem invalid_token_rejected_before_lookup_witness:
  "verifyToken example_lib example_env example_store (bearer_request ''junk'')
     = (Reply 401 [(''error'', JString ''Invalid token'')], [])
   \<and> verifyToken example_lib example_env example_store (bearer_request ''forged-1'')
     = (Reply 401 [(''error'', JString ''Invalid token'')], [])"
  using
    invalid_token_rejected_before_lookup [of "bearer_request ''junk''" "''junk''"
      example_lib example_env example_store]
    invalid_token_rejected_before_lookup [of "bearer_request ''forged-1''" "''forged-1''"
      example_lib example_env example_store]
  by (simp add: example_store_def example_env_def example_lib_def example_token_def
      bearer_request_def bearer_def truthy_def)

text \<open>
  C5, as stated, says that in every state of the store an admitted principal holds only
  permissions granted through roles of its own tenant. It fails: the permission query
  joins \<open>user_roles\<close> to \<open>role_permissions\<close> without looking at the tenant of the
  role. In \<open>crossed_store\<close> user 1 of organization 1 is admitted with
  \<open>tasks.delete\<close>, which only the Admin role of organization 2 grants.
\<close>

theorem permissions_tenant_scoped_counterexample:
  "fst (verifyToken example_lib example_env crossed_store (bearer_request ''access-1''))
     = Next ((bearer_request ''access-1'')\<lparr>user := Some
         \<lparr>pr_id = 1, pr_email = ''ada@acme.test'', pr_firstName = ''Ada'', pr_lastName = ''Lee'',
          pr_tenantId = 1, pr_tenantName = ''Acme'', pr_permissions = [''tasks.delete'']\<rparr>\<rparr>)
   \<and> roles crossed_store 20 = Some \<lparr>r_tenant_id = 2, r_name = ''Admin''\<rparr>
   \<and> spec_tenant_permissions crossed_store 1 1 = {}
   \<and> \<not> set [''tasks.delete''] \<subseteq> spec_tenant_permissions crossed_store 1 1"
proof -
  have a: "fst (verifyToken example_lib example_env crossed_store (bearer_request ''access-1''))
     = Next ((bearer_request ''access-1'')\<lparr>user := Some
         \<lparr>pr_id = 1, pr_email = ''ada@acme.test'', pr_firstName = ''Ada'', pr_lastName = ''Lee'',
          pr_tenantId = 1, pr_tenantName = ''Acme'', pr_permissions = [''tasks.delete'']\<rparr>\<rparr>)"
    by (simp add: example_store_def example_env_def example_lib_def example_token_def
        bearer_request_def crossed_store_def verifyToken_def bearer_def truthy_def
        jwt_verify_def
        db_query_def select_user_tenant_def select_permissions_def)
  have b: "roles crossed_store 20 = Some \<lparr>r_tenant_id = 2, r_name = ''Admin''\<rparr>"
    by (simp add: example_store_def example_env_def example_lib_def example_token_def
        bearer_request_def crossed_store_def)
  have c: "spec_tenant_permissions crossed_store 1 1 = {}"
    by (auto simp: spec_tenant_permissions_def spec_roles_of_user_def spec_role_in_tenant_def
        example_store_def example_env_def example_lib_def example_token_def bearer_request_def
            crossed_store_def)
  from a b c show ?thesis by simp
qed

text \<open>
  C5, amended. In every state of the store in which each role assignment joins a user
  to a role of that user's tenant, an admitted principal holds only permissions granted
  through roles of its own tenant.
\<close>

theorem permissions_tenant_scoped:
  assumes adm: "fst (verifyToken lib e db req) = Next req'"
    and scoped: "spec_assignments_scoped db"
  shows "\<exists>p. user req' = Some p
           \<and> set (pr_permissions p) \<subseteq> spec_tenant_permissions db (pr_tenantId p) (pr_id p)"
proof -
  from verifyToken_Next [OF adm] obtain uid u tn where
    u: "users db uid = Some u"
    and "tenants db (u_tenant_id u) = Some tn"
    and req': "req' = req\<lparr>user := Some
                \<lparr>pr_id = uid, pr_email = u_email u, pr_firstName = u_first_name u,
                 pr_lastName = u_last_name u, pr_tenantId = u_tenant_id u,
                 pr_tenantName = t_name tn, pr_permissions = select_permissions db uid\<rparr>\<rparr>"
    by blast
  have "set (select_permissions db uid) = spec_tenant_permissions db (u_tenant_id u) uid"
    using scoped_tenant_permissions [OF u scoped] by (simp add: set_select_permissions)
  with req' show ?thesis by simp
qed

theorem permissions_tenant_scoped_witness:
  "spec_assignments_scoped example_store
   \<and> set [''tasks.view'', ''tasks.create''] \<subseteq> spec_tenant_permissions example_store 1 1"
proof -
  have a: "fst (verifyToken example_lib example_env example_store (bearer_request ''access-1''))
     = Next ((bearer_request ''access-1'')\<lparr>user := Some
         \<lparr>pr_id = 1, pr_email = ''ada@acme.test'', pr_firstName = ''Ada'', pr_lastName = ''Lee'',
          pr_tenantId = 1, pr_tenantName = ''Acme'',
          pr_permissions = [''tasks.view'', ''tasks.create'']\<rparr>\<rparr>)"
    by (simp add: example_store_def example_env_def example_lib_def example_token_def
        bearer_request_def verifyToken_def bearer_def truthy_def jwt_verify_def
        db_query_def select_user_tenant_def select_permissions_def)
  have b: "spec_assignments_scoped example_store"
    by (simp add: spec_assignments_scoped_def spec_role_in_tenant_def example_store_def
        example_env_def example_lib_def example_token_def bearer_request_def)
  from permissions_tenant_scoped [OF a b] b show ?thesis by simp
qed

text \<open>
  C8. The answer of the middleware, and the queries it sends, are the same in two
  states of the store that differ only in \<open>user_sessions\<close>; in particular before and
  after \<open>revoke\<close>, \<open>revokeAll\<close> and \<open>revokeById\<close>.
\<close>

theorem authenticate_ignores_sessions:
  "verifyToken lib e (db\<lparr>user_sessions := ss\<rparr>) req = verifyToken lib e db req
   \<and> verifyToken lib e (revoke c db t) req = verifyToken lib e db req
   \<and> verifyToken lib e (revokeAll c db uid) req = verifyToken lib e db req
   \<and> verifyToken lib e (revokeById c db sid uid) req = verifyToken lib e db req"
  by (simp add: revoke_def revokeAll_def revokeById_def deactivate_def
      verifyToken_ignores_sessions)

text \<open>
  After every session of user 1 has been revoked, the refresh token of user 1 has no
  valid session and the access token of user 1 is still admitted.
\<close>

theorem authenticate_ignores_sessions_witness:
  "select_sessions (revokeAll 100 example_store 1) 100 ''refresh-1'' = []
   \<and> filter (\<lambda>s. s_user_id s = 1 \<and> s_is_active s)
        (user_sessions (revokeAll 100 example_store 1)) = []
   \<and> fst (verifyToken example_lib example_env (revokeAll 100 example_store 1)
            (bearer_request ''access-1''))
       = Next ((bearer_request ''access-1'')\<lparr>user := Some
           \<lparr>pr_id = 1, pr_email = ''ada@acme.test'', pr_firstName = ''Ada'',
            pr_lastName = ''Lee'', pr_tenantId = 1, pr_tenantName = ''Acme'',
            pr_permissions = [''tasks.view'', ''tasks.create'']\<rparr>\<rparr>)"
proof -
  have a: "fst (verifyToken example_lib example_env example_store (bearer_request ''access-1''))
     = Next ((bearer_request ''access-1'')\<lparr>user := Some
         \<lparr>pr_id = 1, pr_email = ''ada@acme.test'', pr_firstName = ''Ada'', pr_lastName = ''Lee'',
          pr_tenantId = 1, pr_tenantName = ''Acme'',
          pr_permissions = [''tasks.view'', ''tasks.create'']\<rparr>\<rparr>)"
    by (simp add: example_store_def example_env_def example_lib_def example_token_def
        bearer_request_def verifyToken_def bearer_def truthy_def jwt_verify_def
        db_query_def select_user_tenant_def select_permissions_def)
  have b: "select_sessions (revokeAll 100 example_store 1) 100 ''refresh-1'' = []"
    by (simp add: select_sessions_def revokeAll_def deactivate_def example_store_def)
  have c: "filter (\<lambda>s. s_user_id s = 1 \<and> s_is_active s)
        (user_sessions (revokeAll 100 example_store 1)) = []"
    by (simp add: revokeAll_def deactivate_def example_store_def)
  from authenticate_ignores_sessions [where lib = example_lib and e = example_env
      and db = example_store and req = "bearer_request ''access-1''" and c = 100 and uid = 1]
    a b c
  show ?thesis by simp
qed

section \<open>The session registry: results\<close>

text \<open>
  C7. After \<open>revoke\<close> of a refresh token, \<open>isSessionValid\<close> is false for it at any
  time. Revoking again, at any time, leaves the store as the first revocation left it;
  revoking a token that no session carries leaves the store as it was; and the logout
  handler, and the logout route for an admitted request, answer 200 the first time and
  the second (the store answering).
\<close>

theorem revoke_invalidates_idempotent:
  "\<not> isSessionValid (revoke c db t) c' t
   \<and> revoke c' (revoke c db t) t = revoke c db t
   \<and> (t \<notin> s_refresh_token ` set (user_sessions db) \<longrightarrow> revoke c db t = db)
   \<and> (available db \<and> truthy (body_refreshToken req) = Some t \<longrightarrow>
        logout_handler c db req
          = (Reply 200 [(''message'', JString ''Logged out successfully'')], revoke c db t)
        \<and> logout_handler c' (revoke c db t) req
          = (Reply 200 [(''message'', JString ''Logged out successfully'')], revoke c db t))
   \<and> (fst (verifyToken lib e db req) = Next req' \<and> available db
        \<and> truthy (body_refreshToken req) = Some t \<longrightarrow>
        logout lib e db req
          = (Reply 200 [(''message'', JString ''Logged out successfully'')], revoke (now e) db t)
        \<and> logout lib e (revoke (now e) db t) req
          = (Reply 200 [(''message'', JString ''Logged out successfully'')], revoke (now e) db t))"
proof -
  have 1: "\<not> isSessionValid (revoke c db t) c' t"
    by (simp add: isSessionValid_def select_sessions_revoke)
  have 2: "revoke c' (revoke c db t) t = revoke c db t" for c c'
    by (simp add: revoke_def deactivate_deactivate)
  have 3: "t \<notin> s_refresh_token ` set (user_sessions db) \<longrightarrow> revoke c db t = db"
    by (simp add: revoke_absent)
  have 4: "logout_handler c db req
          = (Reply 200 [(''message'', JString ''Logged out successfully'')], revoke c db t)"
    if "available db" "truthy (body_refreshToken req) = Some t"
    using that by (simp add: logout_handler_def db_query_def)
  have 5: "logout_handler c' (revoke c db t) req
          = (Reply 200 [(''message'', JString ''Logged out successfully'')], revoke c db t)"
    if "available db" "truthy (body_refreshToken req) = Some t"
    using that 2 by (simp add: logout_handler_def db_query_def revoke_def)
  have 6: "logout lib e db req
          = (Reply 200 [(''message'', JString ''Logged out successfully'')], revoke (now e) db t)"
    if "fst (verifyToken lib e db req) = Next req'" "available db"
      "truthy (body_refreshToken req) = Some t"
    using that by (rule logout_revokes)
  have 7: "logout lib e (revoke (now e) db t) req
          = (Reply 200 [(''message'', JString ''Logged out successfully'')], revoke (now e) db t)"
    if adm: "fst (verifyToken lib e db req) = Next req'" and up: "available db"
      and tok: "truthy (body_refreshToken req) = Some t"
  proof -
    have "verifyToken lib e (revoke (now e) db t) req = verifyToken lib e db req"
      by (simp add: revoke_def deactivate_def verifyToken_ignores_sessions)
    with adm have "fst (verifyToken lib e (revoke (now e) db t) req) = Next req'" by simp
    moreover have "available (revoke (now e) db t)" using up by (simp add: revoke_def)
    ultimately have "logout lib e (revoke (now e) db t) req
          = (Reply 200 [(''message'', JString ''Logged out successfully'')],
             revoke (now e) (revoke (now e) db t) t)"
      using tok by (rule logout_revokes)
    with 2 show ?thesis by simp
  qed
  from 1 2 3 4 5 6 7 show ?thesis by blast
qed

text \<open>
  In the small installation: the session of \<open>refresh-1\<close> is valid, and is not after
  the revocation; a later second revocation, through the handler and through the whole
  route, answers 200 and changes nothing; no session carries \<open>refresh-9\<close>.
\<close>

theorem revoke_invalidates_idempotent_witness:
  "isSessionValid example_store 100 ''refresh-1''
   \<and> \<not> isSessionValid (revoke 100 example_store ''refresh-1'') 100 ''refresh-1''
   \<and> revoke 150 (revoke 100 example_store ''refresh-1'') ''refresh-1''
       = revoke 100 example_store ''refresh-1''
   \<and> revoke 100 example_store ''refresh-9'' = example_store
   \<and> logout_handler 150 (revoke 100 example_store ''refresh-1'') (refresh_request ''refresh-1'')
       = (Reply 200 [(''message'', JString ''Logged out successfully'')],
          revoke 100 example_store ''refresh-1'')
   \<and> logout example_lib example_env (revoke 100 example_store ''refresh-1'')
         ((bearer_request ''access-1'')\<lparr>body_refreshToken := Some ''refresh-1''\<rparr>)
       = (Reply 200 [(''message'', JString ''Logged out successfully'')],
          revoke 100 example_store ''refresh-1'')"
proof -
  let ?req = "(bearer_request ''access-1'')\<lparr>body_refreshToken := Some ''refresh-1''\<rparr>"
  have v: "isSessionValid example_store 100 ''refresh-1''"
    by (simp add: isSessionValid_def select_sessions_def example_store_def)
  have absent: "''refresh-9'' \<notin> s_refresh_token ` set (user_sessions example_store)"
    by (simp add: example_store_def)
  have up: "available example_store"
    by (simp add: example_store_def)
  have tok: "truthy (body_refreshToken (refresh_request ''refresh-1'')) = Some ''refresh-1''"
    "truthy (body_refreshToken ?req) = Some ''refresh-1''"
    by (simp_all add: refresh_request_def truthy_def)
  have adm: "fst (verifyToken example_lib example_env example_store ?req)
     = Next (?req\<lparr>user := Some
         \<lparr>pr_id = 1, pr_email = ''ada@acme.test'', pr_firstName = ''Ada'', pr_lastName = ''Lee'',
          pr_tenantId = 1, pr_tenantName = ''Acme'',
          pr_permissions = [''tasks.view'', ''tasks.create'']\<rparr>\<rparr>)"
    by (simp add: example_store_def example_env_def example_lib_def example_token_def
        bearer_request_def refresh_request_def verifyToken_def bearer_def truthy_def
        jwt_verify_def
        db_query_def select_user_tenant_def select_permissions_def)
  have clock: "now example_env = 100"
    by (simp add: example_env_def)
  from revoke_invalidates_idempotent [where c = 100 and db = example_store
      and t = "''refresh-1''" and c' = 100 and req = "refresh_request ''refresh-1''"]
    revoke_invalidates_idempotent [where c = 100 and db = example_store
      and t = "''refresh-1''" and c' = 150 and req = "refresh_request ''refresh-1''"]
    revoke_invalidates_idempotent [where c = 100 and db = example_store
      and t = "''refresh-9''" and c' = 100 and req = "refresh_request ''refresh-1''"]
    revoke_invalidates_idempotent [where c = 100 and db = example_store
      and t = "''refresh-1''" and c' = 100 and req = ?req and lib = example_lib
      and e = example_env and req' = "?req\<lparr>user := Some
         \<lparr>pr_id = 1, pr_email = ''ada@acme.test'', pr_firstName = ''Ada'', pr_lastName = ''Lee'',
          pr_tenantId = 1, pr_tenantName = ''Acme'',
          pr_permissions = [''tasks.view'', ''tasks.create'']\<rparr>\<rparr>"]
    v absent up tok adm clock
  show ?thesis by simp
qed

text \<open>
  C9. The refresh route gives the same answer whatever the \<open>users\<close> and \<open>tenants\<close>
  tables hold, and every query it sends is one on \<open>user_sessions\<close>. So a refresh
  token that verifies, with an active and unexpired session row, is answered with a
  new access token for its payload, whatever the status of the user or of the tenant.
\<close>

theorem refresh_skips_status_checks:
  "refresh_token_route lib e (db\<lparr>users := us, tenants := ts\<rparr>) req
     = refresh_token_route lib e db req
   \<and> list_all is_session_query (snd (refresh_token_route lib e db req))
   \<and> (truthy (body_refreshToken req) = Some t \<and> decode lib t = Some j
        \<and> jwt_secret j = JWT_REFRESH_SECRET e \<and> now e < jwt_exp j
        \<and> available db \<and> s \<in> set (user_sessions db) \<and> s_refresh_token s = t
        \<and> s_is_active s \<and> now e < s_expires_at s
      \<longrightarrow> fst (refresh_token_route lib e (db\<lparr>users := us, tenants := ts\<rparr>) req)
            = Reply 200 [(''accessToken'', JString
                (jwt_sign lib (now e) (jwt_payload j) (JWT_SECRET e) (access_ttl e)))])"
proof -
  have issued: "fst (refresh_token_route lib e db req)
            = Reply 200 [(''accessToken'', JString
                (jwt_sign lib (now e) (jwt_payload j) (JWT_SECRET e) (access_ttl e)))]"
    if tok: "truthy (body_refreshToken req) = Some t" and dec: "decode lib t = Some j"
      and sig: "jwt_secret j = JWT_REFRESH_SECRET e" and exp: "now e < jwt_exp j"
      and up: "available db" and s: "s \<in> set (user_sessions db)" "s_refresh_token s = t"
        "s_is_active s" "now e < s_expires_at s"
  proof -
    have v: "jwt_verify lib (now e) t (JWT_REFRESH_SECRET e) = Inr (jwt_payload j)"
      using dec sig exp by (simp add: jwt_verify_ok)
    have "s \<in> set (select_sessions db (now e) t)"
      using s by (simp add: select_sessions_def)
    then obtain x xs where "select_sessions db (now e) t = x # xs"
      by (cases "select_sessions db (now e) t") auto
    with tok v up show ?thesis
      by (simp add: refresh_token_route_def db_query_def payload_eta)
  qed
  show ?thesis
    using issued by (simp add: refresh_ignores_users_tenants refresh_catch_queries)
qed

text \<open>
  User 3 is inactive and user 2 belongs to the suspended organization; each gets a new
  access token for a refresh token with a live session.
\<close>

theorem refresh_skips_status_checks_witness:
  "users example_store 3 = Some \<lparr>u_tenant_id = 1, u_email = ''cy@acme.test'',
       u_first_name = ''Cy'', u_last_name = ''Roy'', u_status = Inactive\<rparr>
   \<and> fst (refresh_token_route example_lib example_env example_store (refresh_request ''refresh-3''))
       = Reply 200 [(''accessToken'', JString
           (jwt_sign example_lib 100 \<lparr>userId = 3, tenantId = 1\<rparr> ''access-secret'' 3600))]
   \<and> tenants example_store 2 = Some \<lparr>t_name = ''Globex'', t_status = Suspended\<rparr>
   \<and> fst (refresh_token_route example_lib example_env example_store (refresh_request ''refresh-2''))
       = Reply 200 [(''accessToken'', JString
           (jwt_sign example_lib 100 \<lparr>userId = 2, tenantId = 2\<rparr> ''access-secret'' 3600))]"
  using
    refresh_skips_status_checks [where lib = example_lib and e = example_env
      and db = example_store and us = "users example_store" and ts = "tenants example_store"
      and req = "refresh_request ''refresh-3''" and t = "''refresh-3''"
      and j = "example_token 3 1 ''refresh-secret'' 1000"
      and s = "\<lparr>s_id = 3, s_user_id = 3, s_refresh_token = ''refresh-3'', s_is_active = True,
                s_expires_at = 1000, s_last_used = 0\<rparr>"]
    refresh_skips_status_checks [where lib = example_lib and e = example_env
      and db = example_store and us = "users example_store" and ts = "tenants example_store"
      and req = "refresh_request ''refresh-2''" and t = "''refresh-2''"
      and j = "example_token 2 2 ''refresh-secret'' 1000"
      and s = "\<lparr>s_id = 2, s_user_id = 2, s_refresh_token = ''refresh-2'', s_is_active = True,
                s_expires_at = 1000, s_last_used = 0\<rparr>"]
  by (simp add: example_store_def example_env_def example_lib_def example_token_def
      bearer_request_def refresh_request_def truthy_def access_ttl_def)

section \<open>Permission gates: results\<close>

text \<open>
  C6. For a request with a principal attached, \<open>checkPermission name\<close> answers 403
  with the error "Insufficient permissions" and the required name exactly when the
  name is not among the principal's permissions, and hands the request on otherwise;
  \<open>checkAnyPermission names\<close> answers 403 exactly when none of the names is among
  them, and hands the request on otherwise.
\<close>

theorem permission_gates:
  "(checkPermission name (req\<lparr>user := Some p\<rparr>)
      = Reply 403 [(''error'', JString ''Insufficient permissions''), (''required'', JString name)])
     = (name \<notin> set (pr_permissions p))
   \<and> (checkPermission name (req\<lparr>user := Some p\<rparr>) = Next (req\<lparr>user := Some p\<rparr>))
     = (name \<in> set (pr_permissions p))
   \<and> (checkAnyPermission names (req\<lparr>user := Some p\<rparr>)
      = Reply 403 [(''error'', JString ''Insufficient permissions''), (''required'', JArray names)])
     = (set names \<inter> set (pr_permissions p) = {})
   \<and> (checkAnyPermission names (req\<lparr>user := Some p\<rparr>) = Next (req\<lparr>user := Some p\<rparr>))
     = (set names \<inter> set (pr_permissions p) \<noteq> {})"
  by (auto simp: checkPermission_def checkAnyPermission_def js_includes_def list_ex_iff)

text \<open>
  A member holding only \<open>tasks.view\<close>, on a route gated on \<open>tasks.delete\<close>.
\<close>

theorem permission_gates_witness:
  "checkPermission ''tasks.delete''
     \<lparr>authorization = None, body_refreshToken = None,
      user = Some \<lparr>pr_id = 1, pr_email = ''u1@t1.test'', pr_firstName = ''U'', pr_lastName = ''One'',
                   pr_tenantId = 1, pr_tenantName = ''T1'', pr_permissions = [''tasks.view'']\<rparr>\<rparr>
     = Reply 403 [(''error'', JString ''Insufficient permissions''),
                  (''required'', JString ''tasks.delete'')]
   \<and> checkAnyPermission [''tasks.delete'', ''tasks.edit'']
     \<lparr>authorization = None, body_refreshToken = None,
      user = Some \<lparr>pr_id = 1, pr_email = ''u1@t1.test'', pr_firstName = ''U'', pr_lastName = ''One'',
                   pr_tenantId = 1, pr_tenantName = ''T1'', pr_permissions = [''tasks.view'']\<rparr>\<rparr>
     = Reply 403 [(''error'', JString ''Insufficient permissions''),
                  (''required'', JArray [''tasks.delete'', ''tasks.edit''])]"
  using
    permission_gates [where name = "''tasks.delete''"
      and req = "\<lparr>authorization = None, body_refreshToken = None, user = None\<rparr>"
      and p = "\<lparr>pr_id = 1, pr_email = ''u1@t1.test'', pr_firstName = ''U'',
        pr_lastName = ''One'', pr_tenantId = 1, pr_tenantName = ''T1'',
        pr_permissions = [''tasks.view'']\<rparr>"
      and names = "[''tasks.delete'', ''tasks.edit'']"]
  by simp

text \<open>
  C10. \<open>checkAnyPermission\<close> applied to no permission names at all answers 403
  "Insufficient permissions" for every principal, whatever permissions it holds: the
  disjunction over an empty list is false.
\<close>

theorem checkAnyPermission_empty_denies:
  "checkAnyPermission [] (req\<lparr>user := Some p\<rparr>) =
     Reply 403 [(''error'', JString ''Insufficient permissions''), (''required'', JArray [])]"
  by (simp add: checkAnyPermission_def)

theorem checkAnyPermission_empty_denies_witness:
  "checkAnyPermission []
     \<lparr>authorization = None, body_refreshToken = None,
      user = Some \<lparr>pr_id = 1, pr_email = ''ada@acme.test'', pr_firstName = ''Ada'',
                   pr_lastName = ''Lee'', pr_tenantId = 1, pr_tenantName = ''Acme'',
                   pr_permissions = [''tasks.view'', ''tasks.create'', ''tasks.delete'']\<rparr>\<rparr>
     = Reply 403 [(''error'', JString ''Insufficient permissions''), (''required'', JArray [])]"
  using checkAnyPermission_empty_denies
    [where req = "\<lparr>authorization = None, body_refreshToken = None, user = None\<rparr>"
      and p = "\<lparr>pr_id = 1, pr_email = ''ada@acme.test'', pr_firstName = ''Ada'',
        pr_lastName = ''Lee'', pr_tenantId = 1, pr_tenantName = ''Acme'',
        pr_permissions = [''tasks.view'', ''tasks.create'', ''tasks.delete'']\<rparr>"]
  by simp

end
